theory Spec2Isabelle
  imports Main
begin

section \<open>JavaScript string primitives used by the handlers\<close>

text \<open>
  A JavaScript string is modelled as a \<^typ>\<open>string\<close>: one \<^typ>\<open>char\<close> per code unit
  below 256. The signatures, tokens and header values the handlers see are ASCII.
\<close>

text \<open>\<^verbatim>\<open>s.slice(-2)\<close>: the last two code units, or all of \<open>s\<close> when it is shorter.\<close>

definition slice_last2 :: "string \<Rightarrow> string" where
  "slice_last2 s = drop (length s - 2) s"

text \<open>\<^verbatim>\<open>s.slice(0, -2)\<close>: everything but the last two code units.\<close>

definition slice_init2 :: "string \<Rightarrow> string" where
  "slice_init2 s = take (length s - 2) s"

text \<open>The value of a digit of radix 16, in either case; \<open>None\<close> for any other code unit.\<close>

definition hex_digit_val :: "char \<Rightarrow> nat option" where
  "hex_digit_val c =
     (let n = (of_char c :: nat) in
      if 48 \<le> n \<and> n \<le> 57 then Some (n - 48)
      else if 97 \<le> n \<and> n \<le> 102 then Some (n - 87)
      else if 65 \<le> n \<and> n \<le> 70 then Some (n - 55)
      else None)"

text \<open>
  The code units that \<^verbatim>\<open>parseInt\<close> skips at the start of its input
  (\<open>StrWhiteSpaceChar\<close> below 256: TAB, LF, VT, FF, CR, SP, NBSP).
\<close>

definition js_whitespace :: "char \<Rightarrow> bool" where
  "js_whitespace c = ((of_char c :: nat) \<in> {9, 10, 11, 12, 13, 32, 160})"

text \<open>The value of a string of radix-16 digits, most significant first, onto an accumulator.\<close>

fun hex_value :: "nat \<Rightarrow> string \<Rightarrow> nat" where
  "hex_value acc [] = acc"
| "hex_value acc (c # cs) =
     hex_value (16 * acc + (case hex_digit_val c of Some d \<Rightarrow> d | None \<Rightarrow> 0)) cs"

text \<open>
  \<^verbatim>\<open>parseInt(s, 16)\<close>, following ECMAScript: skip leading white space, take an optional
  sign, strip an optional \<^verbatim>\<open>0x\<close>/\<^verbatim>\<open>0X\<close>, read the longest run of radix-16 digits. \<open>None\<close>
  is \<^verbatim>\<open>NaN\<close> (no digit read). \<^verbatim>\<open>-0\<close> is the integer 0.
\<close>

definition strip_sign :: "string \<Rightarrow> bool \<times> string" where
  "strip_sign s =
     (case s of
        [] \<Rightarrow> (False, [])
      | c # cs \<Rightarrow>
          if c = CHR ''-'' then (True, cs)
          else if c = CHR ''+'' then (False, cs)
          else (False, s))"

definition strip_0x :: "string \<Rightarrow> string" where
  "strip_0x s =
     (case s of
        a # b # rest \<Rightarrow>
          if a = CHR ''0'' \<and> (b = CHR ''x'' \<or> b = CHR ''X'') then rest else s
      | _ \<Rightarrow> s)"

definition parseInt16 :: "string \<Rightarrow> int option" where
  "parseInt16 s =
     (let (neg, t) = strip_sign (dropWhile js_whitespace s);
          z = takeWhile (\<lambda>c. hex_digit_val c \<noteq> None) (strip_0x t)
      in if z = [] then None
         else Some (if neg then - int (hex_value 0 z) else int (hex_value 0 z)))"

text \<open>The lower-case digit of a value below 16.\<close>

definition hex_digit_char :: "nat \<Rightarrow> char" where
  "hex_digit_char d = ''0123456789abcdef'' ! d"

text \<open>The radix-16 digits of a natural number, without leading zeros (\<^verbatim>\<open>"0"\<close> for 0).\<close>

fun hex_of_nat :: "nat \<Rightarrow> string" where
  "hex_of_nat n =
     (if n < 16 then [hex_digit_char n]
      else hex_of_nat (n div 16) @ [hex_digit_char (n mod 16)])"

text \<open>\<^verbatim>\<open>n.toString(16)\<close> for an integer \<open>n\<close>.\<close>

definition toString16 :: "int \<Rightarrow> string" where
  "toString16 n = (if n < 0 then CHR ''-'' # hex_of_nat (nat (- n)) else hex_of_nat (nat n))"

text \<open>\<^verbatim>\<open>s.padStart(2, "0")\<close>.\<close>

definition padStart2 :: "string \<Rightarrow> string" where
  "padStart2 s = replicate (2 - length s) (CHR ''0'') @ s"

section \<open>The signature normalizer of \<^verbatim>\<open>customSignMessage\<close>\<close>

text \<open>
  \<^verbatim>\<open>const lastByte = parseInt(signature.slice(-2), 16);\<close>
\<close>

definition lastByte :: "string \<Rightarrow> int option" where
  "lastByte signature = parseInt16 (slice_last2 signature)"

text \<open>
  The adjustment of \<open>v\<close> on the signature returned by the MPC signer:
  \<^verbatim>\<open>
  if (lastByte < 27) {
    const adjustedV = (lastByte + 27).toString(16).padStart(2, "0");
    signature = signature.slice(0, -2) + adjustedV;
  }
  \<close>
  A comparison with \<^verbatim>\<open>NaN\<close> is false, so an unparsable tail leaves the signature as it is.
\<close>

definition adjustV :: "string \<Rightarrow> string" where
  "adjustV signature =
     (case lastByte signature of
        None \<Rightarrow> signature
      | Some v \<Rightarrow>
          if v < 27 then slice_init2 signature @ padStart2 (toString16 (v + 27))
          else signature)"

text \<open>What \<^verbatim>\<open>customSignMessage\<close> returns for the signature the signer gave it.\<close>

definition customSignMessage_result :: "string \<Rightarrow> string" where
  "customSignMessage_result signature = ''0x'' @ adjustV signature"

section \<open>Requests, responses and collaborators of the handlers\<close>

text \<open>A thrown JavaScript value (a rejected promise carries one too).\<close>

datatype exn = Exn string

text \<open>
  The values the handlers pass to their collaborators: an ethers \<^verbatim>\<open>TransactionRequest\<close>,
  the CosmJS \<^verbatim>\<open>Coin\<close>, \<^verbatim>\<open>StdFee\<close>, \<^verbatim>\<open>MsgSend\<close> and \<^verbatim>\<open>MsgSendEncodeObject\<close>, and one element
  of a \<^verbatim>\<open>BatchUserOperationCallData\<close>.
\<close>

record transactionRequest =
  tx_to :: string
  tx_from :: "string option"
  tx_value :: int
  tx_nonce :: int
  tx_gasLimit :: int
  tx_gasPrice :: "int option"

record feeData =
  gasPrice :: "int option"

record coin =
  denom :: string
  amount :: string

record stdFee =
  fee_amount :: "coin list"
  gas :: string

record msgSend =
  fromAddress :: string
  toAddress :: string
  msg_amount :: "coin list"

record encodeObject =
  typeUrl :: string
  msg_value :: msgSend

record callData =
  target :: string
  calldata :: string

text \<open>
  The user that \<^verbatim>\<open>simulateVerifyToken\<close> returns; the handlers read its \<^verbatim>\<open>email\<close>, taken
  to be a string.
\<close>

record user =
  email :: string

text \<open>
  One constructor per call that leaves the handler. The trace of a run pairs each call
  with the value it threw, if it threw.
\<close>

datatype event =
    SimulateVerifyToken "string option"
  | ReqJson
  | NewCapsuleServer string
  | ImportSession string
  | HasPregenWallet string
  | GetKeyShareInDB string
  | Decrypt string
  | SetUserShare string
  | NewJsonRpcProvider string
  | NewCapsuleEthersSigner
  | GetAddress
  | SignMessage string
  | ParseEther string
  | GetTransactionCount string
  | GetFeeData
  | SignTransaction transactionRequest
  | NewCapsuleProtoSigner string
  | ConnectWithSigner string
  | StargateSign string "encodeObject list" stdFee string
  | CreateCapsuleAccount
  | CreateCapsuleViemClient string
  | NewWalletClientSigner string
  | CreateModularAccountAlchemyClient string string
  | EncodeFunctionData string "int list"
  | SendUserOperation "callData list"
  | ConsoleError string exn

type_synonym trace = "(event \<times> exn option) list"

text \<open>
  The collaborators, as the answers they give: \<open>Inl\<close> is a throw (or a rejected
  promise), \<open>Inr\<close> a return value. None of them is defined in the sources at hand
  (\<^verbatim>\<open>simulateVerifyToken\<close>, \<^verbatim>\<open>getKeyShareInDB\<close> and \<^verbatim>\<open>decrypt\<close> are helpers of the Deno
  server, the others belong to the Capsule, ethers, viem, CosmJS and Alchemy SDKs), so
  every handler takes them as a parameter. \<open>'r\<close> is the type of the results that the
  handlers pass on without looking inside (\<^verbatim>\<open>userOperationResult\<close>, \<^verbatim>\<open>signResult\<close>).
\<close>

record 'r world =
  simulateVerifyToken :: "string option \<Rightarrow> exn + user option"
  newCapsuleServer :: "string \<Rightarrow> exn + unit"
  importSession :: "string \<Rightarrow> exn + unit"
  hasPregenWallet :: "string \<Rightarrow> exn + bool"
  getKeyShareInDB :: "string \<Rightarrow> exn + string option"
  decrypt :: "string \<Rightarrow> exn + string"
  setUserShare :: "string \<Rightarrow> exn + unit"
  newJsonRpcProvider :: "string \<Rightarrow> exn + unit"
  newCapsuleEthersSigner :: "exn + unit"
  getAddress :: "exn + string"
  signMessage :: "string \<Rightarrow> exn + string"
  parseEther :: "string \<Rightarrow> exn + int"
  getTransactionCount :: "string \<Rightarrow> exn + int"
  getFeeData :: "exn + feeData"
  signTransaction :: "transactionRequest \<Rightarrow> exn + string"
  newCapsuleProtoSigner :: "string \<Rightarrow> exn + unit"
  protoSignerAddress :: string
  connectWithSigner :: "string \<Rightarrow> exn + unit"
  stargateSign :: "string \<Rightarrow> encodeObject list \<Rightarrow> stdFee \<Rightarrow> string \<Rightarrow> exn + 'r"
  createCapsuleAccount :: "exn + unit"
  createCapsuleViemClient :: "string \<Rightarrow> exn + unit"
  newWalletClientSigner :: "string \<Rightarrow> exn + unit"
  createModularAccountAlchemyClient :: "string \<Rightarrow> string \<Rightarrow> exn + unit"
  encodeFunctionData :: "string \<Rightarrow> int list \<Rightarrow> exn + string"
  sendUserOperation :: "callData list \<Rightarrow> exn + 'r"

text \<open>The environment variables the handlers read; \<open>None\<close> is an unset variable.\<close>

record env =
  CAPSULE_API_KEY :: "string option"
  ALCHEMY_API_KEY :: "string option"
  ALCHEMY_GAS_POLICY_ID :: "string option"

text \<open>
  A request to a Deno handler: its \<^verbatim>\<open>Authorization\<close> header, and what
  \<^verbatim>\<open>const { email } = await req.json()\<close> gives (a throw when the body is not JSON or is
  \<^verbatim>\<open>null\<close>; \<open>None\<close> when the object has no \<^verbatim>\<open>email\<close> that is a string: such a value
  differs from every \<^verbatim>\<open>user.email\<close>).
\<close>

record deno_request =
  authorization :: "string option"
  json_email :: "exn + string option"

text \<open>
  A request to an Express handler: the fields of \<^verbatim>\<open>req.body\<close> that the handlers
  destructure, typed as their casts say (\<^verbatim>\<open>{ email?: string; session?: string }\<close>).
\<close>

record express_request =
  body_email :: "string option"
  body_session :: "string option"

datatype 'r json = JString string | JExternal 'r

datatype 'r body = Text string | Json "(string \<times> 'r json) list"

record 'r response =
  status :: nat
  resp_body :: "'r body"

text \<open>
  What an Express handler has done when it returns: sent a response through \<^verbatim>\<open>res\<close>, or
  called \<^verbatim>\<open>next(error)\<close>.
\<close>

datatype 'r express_outcome = Responded "'r response" | NextCalled exn

subsection \<open>Sequencing calls\<close>

text \<open>
  A run is the value an \<^verbatim>\<open>async\<close> body has produced (or the value it threw) and the
  calls it made, in order. A throw ends the run: nothing after it is executed.
\<close>

type_synonym 'a run = "(exn + 'a) \<times> trace"

definition ret :: "'a \<Rightarrow> 'a run" where
  "ret x = (Inr x, [])"

definition call :: "event \<Rightarrow> exn + 'a \<Rightarrow> 'a run" where
  "call ev r = (r, [(ev, case r of Inl e \<Rightarrow> Some e | Inr _ \<Rightarrow> None)])"

definition bind_run :: "'a run \<Rightarrow> ('a \<Rightarrow> 'b run) \<Rightarrow> 'b run" where
  "bind_run m f =
     (case fst m of
        Inl e \<Rightarrow> (Inl e, snd m)
      | Inr x \<Rightarrow> (fst (f x), snd m @ snd (f x)))"

text \<open>\<^verbatim>\<open>xs.map(f)\<close> where \<open>f\<close> may throw: the elements in order, stopping at a throw.\<close>

fun map_run :: "('a \<Rightarrow> 'b run) \<Rightarrow> 'a list \<Rightarrow> 'b list run" where
  "map_run f [] = ret []"
| "map_run f (x # xs) =
     bind_run (f x) (\<lambda>y. bind_run (map_run f xs) (\<lambda>ys. ret (y # ys)))"

subsection \<open>Small JavaScript idioms\<close>

text \<open>
  \<^verbatim>\<open>!v\<close> is false exactly for a defined, non-empty string; \<open>truthy\<close> gives that string.
\<close>

definition truthy :: "string option \<Rightarrow> string option" where
  "truthy v = (case v of None \<Rightarrow> None | Some s \<Rightarrow> if s = [] then None else Some s)"

definition startsWith :: "string \<Rightarrow> string \<Rightarrow> bool" where
  "startsWith s p = (take (length p) s = p)"

text \<open>\<^verbatim>\<open>s.split(sep)\<close> for a separator of one code unit.\<close>

fun split_on :: "char \<Rightarrow> string \<Rightarrow> string list" where
  "split_on sep [] = [[]]"
| "split_on sep (c # cs) =
     (if c = sep then [] # split_on sep cs
      else (case split_on sep cs of
              [] \<Rightarrow> [[c]]
            | x # xs \<Rightarrow> (c # x) # xs))"

text \<open>\<^verbatim>\<open>xs[1]\<close>; \<open>None\<close> is \<^verbatim>\<open>undefined\<close>.\<close>

definition index1 :: "'a list \<Rightarrow> 'a option" where
  "index1 xs = (case xs of _ # y # _ \<Rightarrow> Some y | _ \<Rightarrow> None)"

definition text_response :: "nat \<Rightarrow> string \<Rightarrow> 'r response" where
  "text_response st msg = \<lparr>status = st, resp_body = Text msg\<rparr>"

definition json_response :: "nat \<Rightarrow> (string \<times> 'r json) list \<Rightarrow> 'r response" where
  "json_response st kvs = \<lparr>status = st, resp_body = Json kvs\<rparr>"

section \<open>The pregenerated-wallet handlers of the Deno server\<close>

text \<open>
  \<^verbatim>\<open>signWithEthers\<close> (\<^verbatim>\<open>server/with-deno/handlers/signWithEthers.ts\<close>). The handler has
  no \<^verbatim>\<open>try\<close>: a throw of a collaborator is the \<open>Inl\<close> of the run, the rejection of the
  promise the handler returns. When \<^verbatim>\<open>user.email !== email\<close> is false the body's \<^verbatim>\<open>email\<close> is
  a string, the one passed on to the collaborators.
\<close>

definition signWithEthers :: "'r world \<Rightarrow> env \<Rightarrow> deno_request \<Rightarrow> 'r response run" where
  "signWithEthers w ev req =
     (case truthy (authorization req) of
        None \<Rightarrow> ret (text_response 401 ''Unauthorized'')
      | Some authHeader \<Rightarrow>
        if \<not> startsWith authHeader ''Bearer '' then ret (text_response 401 ''Unauthorized'')
        else
          let token = index1 (split_on (CHR '' '') authHeader) in
          bind_run (call (SimulateVerifyToken token) (simulateVerifyToken w token)) (\<lambda>verified.
          case verified of
            None \<Rightarrow> ret (text_response 401 ''Unauthorized'')
          | Some u \<Rightarrow>
            bind_run (call ReqJson (json_email req)) (\<lambda>requested.
            case requested of
              None \<Rightarrow> ret (text_response 403 ''Forbidden'')
            | Some em \<Rightarrow>
              if email u \<noteq> em then ret (text_response 403 ''Forbidden'')
              else
                case truthy (CAPSULE_API_KEY ev) of
                  None \<Rightarrow> ret (text_response 500 ''CAPSULE_API_KEY not set'')
                | Some key \<Rightarrow>
                  bind_run (call (NewCapsuleServer key) (newCapsuleServer w key)) (\<lambda>_.
                  bind_run (call (HasPregenWallet em) (hasPregenWallet w em)) (\<lambda>hasWallet.
                  if \<not> hasWallet then ret (text_response 400 ''Wallet does not exist'')
                  else
                    bind_run (call (GetKeyShareInDB em) (getKeyShareInDB w em)) (\<lambda>stored.
                    case truthy stored of
                      None \<Rightarrow> ret (text_response 400 ''Key share does not exist'')
                    | Some keyShare \<Rightarrow>
                      bind_run (call (Decrypt keyShare) (decrypt w keyShare)) (\<lambda>decryptedKeyShare.
                      bind_run (call (SetUserShare decryptedKeyShare)
                                  (setUserShare w decryptedKeyShare)) (\<lambda>_.
                      bind_run (call (NewJsonRpcProvider ''https://ethereum-sepolia-rpc.publicnode.com'')
                                  (newJsonRpcProvider w ''https://ethereum-sepolia-rpc.publicnode.com'')) (\<lambda>_.
                      bind_run (call NewCapsuleEthersSigner (newCapsuleEthersSigner w)) (\<lambda>_.
                      bind_run (call GetAddress (getAddress w)) (\<lambda>address.
                      bind_run (call (SignMessage ''Sign with Capsule PreGen and Capsule Ethers Signer'')
                                  (signMessage w ''Sign with Capsule PreGen and Capsule Ethers Signer''))
                        (\<lambda>signMessageResult.
                      bind_run (call (ParseEther ''0.01'') (parseEther w ''0.01'')) (\<lambda>wei.
                      bind_run (call (GetTransactionCount address) (getTransactionCount w address))
                        (\<lambda>count.
                      bind_run (call GetFeeData (getFeeData w)) (\<lambda>fees.
                      let demoTx = \<lparr>tx_to = address, tx_from = None, tx_value = wei,
                                     tx_nonce = count, tx_gasLimit = 21000,
                                     tx_gasPrice = gasPrice fees\<rparr> in
                      bind_run (call (SignTransaction demoTx) (signTransaction w demoTx))
                        (\<lambda>signTxResult.
                      ret (json_response 200
                             [(''route'', JString ''signWithEthers''),
                              (''signMessageResult'', JString signMessageResult),
                              (''signTxResult'', JString signTxResult)])))))))))))))))))"

text \<open>
  \<^verbatim>\<open>signWithCosmJS\<close> (the Deno handler that follows the route table in
  \<^verbatim>\<open>server/with-bun/routes.ts\<close>). Up to \<^verbatim>\<open>setUserShare\<close> its text is that of
  \<^verbatim>\<open>signWithEthers\<close>.
\<close>

definition signWithCosmJS :: "'r world \<Rightarrow> env \<Rightarrow> deno_request \<Rightarrow> 'r response run" where
  "signWithCosmJS w ev req =
     (case truthy (authorization req) of
        None \<Rightarrow> ret (text_response 401 ''Unauthorized'')
      | Some authHeader \<Rightarrow>
        if \<not> startsWith authHeader ''Bearer '' then ret (text_response 401 ''Unauthorized'')
        else
          let token = index1 (split_on (CHR '' '') authHeader) in
          bind_run (call (SimulateVerifyToken token) (simulateVerifyToken w token)) (\<lambda>verified.
          case verified of
            None \<Rightarrow> ret (text_response 401 ''Unauthorized'')
          | Some u \<Rightarrow>
            bind_run (call ReqJson (json_email req)) (\<lambda>requested.
            case requested of
              None \<Rightarrow> ret (text_response 403 ''Forbidden'')
            | Some em \<Rightarrow>
              if email u \<noteq> em then ret (text_response 403 ''Forbidden'')
              else
                case truthy (CAPSULE_API_KEY ev) of
                  None \<Rightarrow> ret (text_response 500 ''CAPSULE_API_KEY not set'')
                | Some key \<Rightarrow>
                  bind_run (call (NewCapsuleServer key) (newCapsuleServer w key)) (\<lambda>_.
                  bind_run (call (HasPregenWallet em) (hasPregenWallet w em)) (\<lambda>hasWallet.
                  if \<not> hasWallet then ret (text_response 400 ''Wallet does not exist'')
                  else
                    bind_run (call (GetKeyShareInDB em) (getKeyShareInDB w em)) (\<lambda>stored.
                    case truthy stored of
                      None \<Rightarrow> ret (text_response 400 ''Key share does not exist'')
                    | Some keyShare \<Rightarrow>
                      bind_run (call (Decrypt keyShare) (decrypt w keyShare)) (\<lambda>decryptedKeyShare.
                      bind_run (call (SetUserShare decryptedKeyShare)
                                  (setUserShare w decryptedKeyShare)) (\<lambda>_.
                      bind_run (call (NewCapsuleProtoSigner ''cosmos'')
                                  (newCapsuleProtoSigner w ''cosmos'')) (\<lambda>_.
                      bind_run (call (ConnectWithSigner ''https://rpc-t.cosmos.nodestake.top'')
                                  (connectWithSigner w ''https://rpc-t.cosmos.nodestake.top'')) (\<lambda>_.
                      let sender = protoSignerAddress w;
                          fee = \<lparr>fee_amount = [\<lparr>denom = ''uatom'', amount = ''500''\<rparr>],
                                 gas = ''200000''\<rparr>;
                          message = \<lparr>fromAddress = sender, toAddress = ''cosmos1...'',
                                     msg_amount = [\<lparr>denom = ''uatom'', amount = ''1000''\<rparr>]\<rparr>;
                          demoTxMessage = \<lparr>typeUrl = ''/cosmos.bank.v1beta1.MsgSend'',
                                           msg_value = message\<rparr> in
                      bind_run (call (StargateSign sender [demoTxMessage] fee ''Signed with Capsule'')
                                  (stargateSign w sender [demoTxMessage] fee ''Signed with Capsule''))
                        (\<lambda>signResult.
                      ret (json_response 200
                             [(''route'', JString ''signWithCosmJS''),
                              (''signResult'', JExternal signResult)]))))))))))))"

section \<open>The session handlers of the Express server\<close>

definition EXAMPLE_CONTRACT_ADDRESS :: string where
  "EXAMPLE_CONTRACT_ADDRESS = ''0x7920b6d8b07f0b9a3b96f238c64e022278db1419''"

text \<open>
  The body of the \<^verbatim>\<open>try\<close> of \<^verbatim>\<open>alchemySessionSignHandler\<close>: the response it sends, or the
  value thrown inside it. The ABI handed to \<^verbatim>\<open>encodeFunctionData\<close> comes from the artifact
  \<^verbatim>\<open>Example.json\<close> and is part of the collaborator.
\<close>

definition alchemySessionSignHandler_try ::
  "'r world \<Rightarrow> env \<Rightarrow> express_request \<Rightarrow> 'r response run" where
  "alchemySessionSignHandler_try w ev req =
     (case truthy (body_session req) of
        None \<Rightarrow>
          ret (text_response 400 ''Session is required. Ensure the client passes a valid session.'')
      | Some session \<Rightarrow>
        case truthy (CAPSULE_API_KEY ev) of
          None \<Rightarrow>
            ret (text_response 500
                   ''CAPSULE_API_KEY not set. Set it in the environment before using this handler.'')
        | Some capsuleKey \<Rightarrow>
          case (truthy (ALCHEMY_API_KEY ev), truthy (ALCHEMY_GAS_POLICY_ID ev)) of
            (Some alchemyKey, Some policyId) \<Rightarrow>
              bind_run (call (NewCapsuleServer capsuleKey) (newCapsuleServer w capsuleKey)) (\<lambda>_.
              bind_run (call (ImportSession session) (importSession w session)) (\<lambda>_.
              bind_run (call CreateCapsuleAccount (createCapsuleAccount w)) (\<lambda>_.
              bind_run (call (CreateCapsuleViemClient ''https://arbitrum-sepolia-rpc.publicnode.com'')
                          (createCapsuleViemClient w ''https://arbitrum-sepolia-rpc.publicnode.com''))
                (\<lambda>_.
              bind_run (call (NewWalletClientSigner ''capsule'') (newWalletClientSigner w ''capsule''))
                (\<lambda>_.
              bind_run (call (CreateModularAccountAlchemyClient alchemyKey policyId)
                          (createModularAccountAlchemyClient w alchemyKey policyId)) (\<lambda>_.
              bind_run (map_run (\<lambda>x.
                          bind_run (call (EncodeFunctionData ''changeX'' [x])
                                      (encodeFunctionData w ''changeX'' [x])) (\<lambda>encoded.
                          ret \<lparr>target = EXAMPLE_CONTRACT_ADDRESS, calldata = encoded\<rparr>))
                          [1, 2, 3, 4, 5]) (\<lambda>demoUserOperations.
              bind_run (call (SendUserOperation demoUserOperations)
                          (sendUserOperation w demoUserOperations)) (\<lambda>userOperationResult.
              ret (json_response 200
                     [(''message'', JString
                         ''Sent user operation using Alchemy + Capsule (session-based wallet, viem-based).''),
                      (''userOperationResult'', JExternal userOperationResult)])))))))))
          | _ \<Rightarrow>
              ret (text_response 500
                     ''ALCHEMY_API_KEY or ALCHEMY_GAS_POLICY_ID not set. Provide these credentials to use Alchemy's AA.''))"

text \<open>
  The \<^verbatim>\<open>catch\<close> of the Express handlers: \<^verbatim>\<open>console.error(label, error); next(error);\<close>
\<close>

definition catch_next :: "string \<Rightarrow> 'r response run \<Rightarrow> 'r express_outcome \<times> trace" where
  "catch_next label r =
     (case fst r of
        Inr resp \<Rightarrow> (Responded resp, snd r)
      | Inl error \<Rightarrow> (NextCalled error, snd r @ [(ConsoleError label error, None)]))"

definition alchemySessionSignHandler ::
  "'r world \<Rightarrow> env \<Rightarrow> express_request \<Rightarrow> 'r express_outcome \<times> trace" where
  "alchemySessionSignHandler w ev req =
     catch_next ''Error in alchemySessionSignHandler:'' (alchemySessionSignHandler_try w ev req)"

text \<open>The body of the \<^verbatim>\<open>try\<close> of \<^verbatim>\<open>ethersSessionSignHandler\<close>.\<close>

definition ethersSessionSignHandler_try ::
  "'r world \<Rightarrow> env \<Rightarrow> express_request \<Rightarrow> 'r response run" where
  "ethersSessionSignHandler_try w ev req =
     (case (truthy (body_email req), truthy (body_session req)) of
        (Some em, Some session) \<Rightarrow>
          (case truthy (CAPSULE_API_KEY ev) of
             None \<Rightarrow>
               ret (text_response 500
                      ''Set CAPSULE_API_KEY in the environment before using this handler.'')
           | Some capsuleKey \<Rightarrow>
               bind_run (call (NewCapsuleServer capsuleKey) (newCapsuleServer w capsuleKey)) (\<lambda>_.
               bind_run (call (ImportSession session) (importSession w session)) (\<lambda>_.
               bind_run (call (NewJsonRpcProvider ''https://ethereum-sepolia-rpc.publicnode.com'')
                           (newJsonRpcProvider w ''https://ethereum-sepolia-rpc.publicnode.com'')) (\<lambda>_.
               bind_run (call NewCapsuleEthersSigner (newCapsuleEthersSigner w)) (\<lambda>_.
               bind_run (call GetAddress (getAddress w)) (\<lambda>address.
               bind_run (call (ParseEther ''0.001'') (parseEther w ''0.001'')) (\<lambda>wei.
               bind_run (call (GetTransactionCount address) (getTransactionCount w address))
                 (\<lambda>count.
               bind_run (call GetFeeData (getFeeData w)) (\<lambda>fees.
               let tx = \<lparr>tx_to = address, tx_from = Some address, tx_value = wei,
                           tx_nonce = count, tx_gasLimit = 21000,
                           tx_gasPrice = gasPrice fees\<rparr> in
               bind_run (call (SignTransaction tx) (signTransaction w tx)) (\<lambda>signedTx.
               ret (json_response 200
                      [(''message'', JString
                          ''Transaction signed using Ethers + Capsule (session-based wallet).''),
                       (''signedTransaction'', JString signedTx)])))))))))))
      | _ \<Rightarrow> ret (text_response 400 ''Provide both `email` and `session` in the request body.''))"

definition ethersSessionSignHandler ::
  "'r world \<Rightarrow> env \<Rightarrow> express_request \<Rightarrow> 'r express_outcome \<times> trace" where
  "ethersSessionSignHandler w ev req =
     catch_next ''Error in ethersSessionSignHandler:'' (ethersSessionSignHandler_try w ev req)"

section \<open>Properties of runs\<close>

text \<open>The run \<open>m\<close> when the calls \<open>pre\<close> have been made before it.\<close>

definition after_calls :: "trace \<Rightarrow> 'a run \<Rightarrow> 'a run" where
  "after_calls pre m = (fst m, pre @ snd m)"

text \<open>
  A call that throws is the last call of the run, and the run fails with the thrown
  value: nothing is retried and nothing is executed after a failure.
\<close>

definition throws_are_final :: "'a run \<Rightarrow> bool" where
  "throws_are_final m =
     (\<forall>c e. (c, Some e) \<in> set (snd m) \<longrightarrow> fst m = Inl e \<and> last (snd m) = (c, Some e))"

text \<open>
  What the \<^verbatim>\<open>catch\<close> of an Express handler does with a throw: the outcome is
  \<^verbatim>\<open>next(error)\<close> with the thrown value, and \<^verbatim>\<open>console.error\<close> under the handler's label is
  the last call.
\<close>

definition caught_and_delegated :: "string \<Rightarrow> 'r express_outcome \<times> trace \<Rightarrow> bool" where
  "caught_and_delegated label out =
     (\<forall>c e. (c, Some e) \<in> set (snd out) \<longrightarrow>
        fst out = NextCalled e \<and> last (snd out) = (ConsoleError label e, None))"

definition isConsoleError :: "event \<Rightarrow> bool" where
  "isConsoleError c = (case c of ConsoleError _ _ \<Rightarrow> True | _ \<Rightarrow> False)"

definition never_logs :: "'a run \<Rightarrow> bool" where
  "never_logs m = (\<forall>c \<in> set (snd m). \<not> isConsoleError (fst c))"








section \<open>A concrete world\<close>

text \<open>
  Collaborators that all succeed, an environment with every variable set and one request
  per server, on which the theorems below are exercised.
\<close>

definition demo_world :: "string world" where
  "demo_world =
     \<lparr>simulateVerifyToken =
        (\<lambda>t. Inr (if t = Some ''tok'' then Some \<lparr>email = ''a@b.com''\<rparr> else None)),
      newCapsuleServer = (\<lambda>_. Inr ()),
      importSession = (\<lambda>_. Inr ()),
      hasPregenWallet = (\<lambda>_. Inr True),
      getKeyShareInDB = (\<lambda>_. Inr (Some ''enc'')),
      decrypt = (\<lambda>_. Inr ''share''),
      setUserShare = (\<lambda>_. Inr ()),
      newJsonRpcProvider = (\<lambda>_. Inr ()),
      newCapsuleEthersSigner = Inr (),
      getAddress = Inr ''0xabc'',
      signMessage = (\<lambda>_. Inr ''sig''),
      parseEther = (\<lambda>_. Inr 10000000000000000),
      getTransactionCount = (\<lambda>_. Inr 7),
      getFeeData = Inr \<lparr>gasPrice = Some 1\<rparr>,
      signTransaction = (\<lambda>_. Inr ''signed''),
      newCapsuleProtoSigner = (\<lambda>_. Inr ()),
      protoSignerAddress = ''cosmos1abc'',
      connectWithSigner = (\<lambda>_. Inr ()),
      stargateSign = (\<lambda>_ _ _ _. Inr ''txraw''),
      createCapsuleAccount = Inr (),
      createCapsuleViemClient = (\<lambda>_. Inr ()),
      newWalletClientSigner = (\<lambda>_. Inr ()),
      createModularAccountAlchemyClient = (\<lambda>_ _. Inr ()),
      encodeFunctionData =
        (\<lambda>name args. case args of [x] \<Rightarrow> Inr (toString16 x) | _ \<Rightarrow> Inl (Exn ''args'')),
      sendUserOperation = (\<lambda>_. Inr ''uo'')\<rparr>"


definition demo_env :: env where
  "demo_env =
     \<lparr>CAPSULE_API_KEY = Some ''ck'', ALCHEMY_API_KEY = Some ''ak'',
      ALCHEMY_GAS_POLICY_ID = Some ''gp''\<rparr>"

definition demo_deno_request :: deno_request where
  "demo_deno_request = \<lparr>authorization = Some ''Bearer tok'', json_email = Inr (Some ''a@b.com'')\<rparr>"

definition demo_express_request :: express_request where
  "demo_express_request = \<lparr>body_email = Some ''a@b.com'', body_session = Some ''abc''\<rparr>"

section \<open>The normalizer: parsing the final byte\<close>

lemma hex_digit_val_less: "hex_digit_val c = Some d \<Longrightarrow> d < 16"
  by (auto simp: hex_digit_val_def Let_def split: if_splits)

lemma hex_digit_not_ws: "hex_digit_val c = Some d \<Longrightarrow> \<not> js_whitespace c"
  by (auto simp: hex_digit_val_def js_whitespace_def Let_def split: if_splits)

lemma hex_digit_not_sign: "hex_digit_val c = Some d \<Longrightarrow> c \<noteq> CHR ''-'' \<and> c \<noteq> CHR ''+''"
  by (auto simp: hex_digit_val_def Let_def split: if_splits)

lemma hex_digit_not_x: "hex_digit_val c = Some d \<Longrightarrow> c \<noteq> CHR ''x'' \<and> c \<noteq> CHR ''X''"
  by (auto simp: hex_digit_val_def Let_def split: if_splits)

lemma hex_digit_val_char: "d < 16 \<Longrightarrow> hex_digit_val (hex_digit_char d) = Some d"
proof -
  assume "d < 16"
  then have "d = 0 \<or> d = 1 \<or> d = 2 \<or> d = 3 \<or> d = 4 \<or> d = 5 \<or> d = 6 \<or> d = 7 \<or> d = 8
      \<or> d = 9 \<or> d = 10 \<or> d = 11 \<or> d = 12 \<or> d = 13 \<or> d = 14 \<or> d = 15"
    by arith
  then show ?thesis
    by (elim disjE) (simp_all add: hex_digit_val_def hex_digit_char_def)
qed

lemma parseInt16_two_digits:
  assumes "hex_digit_val c1 = Some h" "hex_digit_val c2 = Some l"
  shows "parseInt16 [c1, c2] = Some (int (16 * h + l))"
  using assms hex_digit_not_ws[OF assms(1)] hex_digit_not_sign[OF assms(1)]
    hex_digit_not_x[OF assms(2)]
  by (simp add: parseInt16_def strip_sign_def strip_0x_def)

lemma lastByte_two_digits:
  assumes "hex_digit_val c1 = Some h" "hex_digit_val c2 = Some l"
  shows "lastByte (pre @ [c1, c2]) = Some (int (16 * h + l))"
  using parseInt16_two_digits[OF assms] by (simp add: lastByte_def slice_last2_def)

lemma hex_of_nat_two:
  "16 \<le> n \<Longrightarrow> n < 256 \<Longrightarrow> hex_of_nat n = [hex_digit_char (n div 16), hex_digit_char (n mod 16)]"
  by (subst hex_of_nat.simps) (simp add: Let_def)

lemma length_padStart2_hex: "n < 256 \<Longrightarrow> length (padStart2 (hex_of_nat n)) = 2"
  by (cases "n < 16") (simp_all add: padStart2_def hex_of_nat_two)

lemma length_padStart2_toString16:
  assumes "0 \<le> n" "n < 256"
  shows "length (padStart2 (toString16 n)) = 2"
  using assms length_padStart2_hex[of "nat n"] by (simp add: toString16_def)

lemma adjusted_digits:
  assumes "b < 27"
  shows "padStart2 (toString16 (int b + 27)) =
           [hex_digit_char ((b + 27) div 16), hex_digit_char ((b + 27) mod 16)]"
proof -
  have "nat (int b + 27) = b + 27" by simp
  moreover have "hex_of_nat (b + 27) =
      [hex_digit_char ((b + 27) div 16), hex_digit_char ((b + 27) mod 16)]"
    using assms by (intro hex_of_nat_two) simp_all
  ultimately show ?thesis by (simp add: toString16_def padStart2_def)
qed

lemma adjustV_two_digits:
  assumes "hex_digit_val c1 = Some h" "hex_digit_val c2 = Some l"
  shows "adjustV (pre @ [c1, c2]) =
           (if 16 * h + l < 27
            then pre @ [hex_digit_char ((16 * h + l + 27) div 16),
                        hex_digit_char ((16 * h + l + 27) mod 16)]
            else pre @ [c1, c2])"
  using lastByte_two_digits[OF assms, of pre] adjusted_digits[of "16 * h + l"]
  by (simp add: adjustV_def slice_init2_def)

lemma hex_value_le: "length z \<le> 1 \<Longrightarrow> hex_value 0 z \<le> 15"
  by (cases z) (auto split: option.splits dest: hex_digit_val_less)

lemma hex_value_lt: "length z \<le> 2 \<Longrightarrow> hex_value 0 z < 256"
proof (cases z)
  case Nil
  then show ?thesis by simp
next
  case (Cons a z')
  assume "length z \<le> 2"
  with Cons show ?thesis
    by (cases z') (auto split: option.splits dest!: hex_digit_val_less)
qed

lemma length_dropWhile_le2: "length (dropWhile P xs) \<le> length xs"
  by (induction xs) auto

lemma length_takeWhile_le2: "length (takeWhile P xs) \<le> length xs"
  by (induction xs) auto

lemma strip_0x_len: "length (strip_0x s) \<le> length s"
  by (auto simp: strip_0x_def split: list.splits)

lemma parseInt16_range:
  assumes "length s \<le> 2" "parseInt16 s = Some v"
  shows "- 15 \<le> v \<and> v < 256"
proof -
  define ds where "ds = dropWhile js_whitespace s"
  obtain neg t where st0: "strip_sign ds = (neg, t)"
    by (cases "strip_sign ds")
  then have st: "strip_sign (dropWhile js_whitespace s) = (neg, t)"
    by (simp add: ds_def)
  let ?z = "takeWhile (\<lambda>c. hex_digit_val c \<noteq> None) (strip_0x t)"
  have d: "length ds \<le> 2"
    using assms(1) length_dropWhile_le2[of js_whitespace s] by (simp add: ds_def)
  have t2: "length t \<le> 2" and tn: "neg \<Longrightarrow> length t \<le> 1"
    using st0 d by (auto simp: strip_sign_def split: list.splits if_splits)
  have z2: "length ?z \<le> length t"
    using length_takeWhile_le2[of _ "strip_0x t"] strip_0x_len[of t] by (meson order_trans)
  have v: "v = (if neg then - int (hex_value 0 ?z) else int (hex_value 0 ?z))"
    using assms(2) st by (auto simp: parseInt16_def Let_def split: if_splits)
  show ?thesis
  proof (cases neg)
    case True
    then have "hex_value 0 ?z \<le> 15" using tn z2 by (intro hex_value_le) linarith
    with True v show ?thesis by simp
  next
    case False
    have "hex_value 0 ?z < 256" using t2 z2 by (intro hex_value_lt) linarith
    with False v show ?thesis by simp
  qed
qed

lemma length_adjustV: "length sig \<noteq> 1 \<Longrightarrow> length (adjustV sig) = length sig"
proof (cases "lastByte sig")
  case None
  then show ?thesis by (simp add: adjustV_def)
next
  case (Some v)
  assume n1: "length sig \<noteq> 1"
  have "length (slice_last2 sig) \<le> 2" by (simp add: slice_last2_def)
  with Some have r: "- 15 \<le> v \<and> v < 256"
    using parseInt16_range by (simp add: lastByte_def)
  have ne: "sig \<noteq> []"
    using Some
    by (auto simp: lastByte_def slice_last2_def parseInt16_def strip_sign_def strip_0x_def)
  with n1 have l2: "2 \<le> length sig" by (cases "length sig") auto
  show ?thesis
  proof (cases "v < 27")
    case True
    with r have "length (padStart2 (toString16 (v + 27))) = 2"
      by (intro length_padStart2_toString16) auto
    with True Some l2 show ?thesis by (simp add: adjustV_def slice_init2_def)
  next
    case False
    with Some show ?thesis by (simp add: adjustV_def)
  qed
qed

lemma take_adjustV: "take (length sig - 2) (adjustV sig) = take (length sig - 2) sig"
  by (auto simp: adjustV_def slice_init2_def split: option.splits)

text \<open>
  C1 (as amended). For every signature that ends in two hexadecimal digits, of value \<open>b\<close>,
  the normalizer returns a signature whose final byte is \<open>b + 27\<close> when \<open>b < 27\<close> and \<open>b\<close>
  otherwise. The final byte of the result lies in \<open>{27, 28}\<close> exactly when \<open>b\<close> is one of
  0, 1, 27, 28. The normalizer is a total function of the signature: it has no failure
  path.
\<close>

theorem adjustV_final_byte:
  assumes "hex_digit_val c1 = Some h" and "hex_digit_val c2 = Some l" and "b = 16 * h + l"
  shows "lastByte (pre @ [c1, c2]) = Some (int b)
         \<and> lastByte (adjustV (pre @ [c1, c2])) = Some (if b < 27 then int b + 27 else int b)
         \<and> (lastByte (adjustV (pre @ [c1, c2])) \<in> {Some 27, Some 28} \<longleftrightarrow> b \<in> {0, 1, 27, 28})"
proof -
  have in_byte: "lastByte (pre @ [c1, c2]) = Some (int b)"
    using lastByte_two_digits[OF assms(1,2)] assms(3) by simp
  have out_byte: "lastByte (adjustV (pre @ [c1, c2])) = Some (if b < 27 then int b + 27 else int b)"
  proof (cases "b < 27")
    case True
    have hi: "hex_digit_val (hex_digit_char ((b + 27) div 16)) = Some ((b + 27) div 16)"
      using True by (intro hex_digit_val_char) simp
    have lo: "hex_digit_val (hex_digit_char ((b + 27) mod 16)) = Some ((b + 27) mod 16)"
      by (intro hex_digit_val_char) simp
    have "adjustV (pre @ [c1, c2]) =
        pre @ [hex_digit_char ((b + 27) div 16), hex_digit_char ((b + 27) mod 16)]"
      using adjustV_two_digits[OF assms(1,2), of pre] True assms(3) by simp
    then show ?thesis
      using lastByte_two_digits[OF hi lo, of pre] True by simp
  next
    case False
    then show ?thesis
      using adjustV_two_digits[OF assms(1,2), of pre] in_byte assms(3) by simp
  qed
  have "(lastByte (adjustV (pre @ [c1, c2])) \<in> {Some 27, Some 28}) = (b \<in> {0, 1, 27, 28})"
    unfolding out_byte by (cases "b < 27") auto
  with in_byte out_byte show ?thesis by blast
qed

theorem adjustV_final_byte_witness:
  "hex_digit_val (CHR ''0'') = Some 0 \<and> hex_digit_val (CHR ''5'') = Some 5
   \<and> lastByte ''ab05'' = Some 5 \<and> lastByte (adjustV ''ab05'') = Some 32"
  using adjustV_final_byte[of "CHR ''0''" 0 "CHR ''5''" 5 5 "''ab''"]
  by (simp add: hex_digit_val_def)

text \<open>
  C1 as it is stated fails: the final byte \<open>0x05\<close> is mapped to \<open>0x20 = 32\<close>, and the final
  byte \<open>0xff\<close> is left as it is; neither result lies in \<open>{27, 28}\<close>.
\<close>

theorem adjustV_not_always_27_28:
  "adjustV ''ab05'' = ''ab20'' \<and> lastByte (adjustV ''ab05'') = Some 32
   \<and> lastByte (adjustV ''ab05'') \<notin> {Some 27, Some 28}
   \<and> adjustV ''abff'' = ''abff'' \<and> lastByte (adjustV ''abff'') = Some 255"
  by (simp add: adjustV_def lastByte_def parseInt16_def slice_last2_def slice_init2_def
      strip_sign_def strip_0x_def js_whitespace_def hex_digit_val_def toString16_def
      padStart2_def hex_digit_char_def)

text \<open>
  C2. The normalizer maps a final byte \<open>00\<close> to \<open>1b\<close> and \<open>01\<close> to \<open>1c\<close>, returns a
  signature that ends in \<open>1b\<close> or \<open>1c\<close> as it is, and normalizing such a signature twice
  is normalizing it once. \<^verbatim>\<open>customSignMessage\<close> returns the normalized signature after
  \<^verbatim>\<open>0x\<close>.
\<close>

theorem adjustV_canonical_bytes:
  "adjustV (pre @ ''00'') = pre @ ''1b''
   \<and> adjustV (pre @ ''01'') = pre @ ''1c''
   \<and> adjustV (pre @ ''1b'') = pre @ ''1b''
   \<and> adjustV (pre @ ''1c'') = pre @ ''1c''
   \<and> adjustV (adjustV (pre @ ''1b'')) = adjustV (pre @ ''1b'')
   \<and> adjustV (adjustV (pre @ ''1c'')) = adjustV (pre @ ''1c'')
   \<and> customSignMessage_result (pre @ ''00'') = ''0x'' @ pre @ ''1b''
   \<and> customSignMessage_result (pre @ ''01'') = ''0x'' @ pre @ ''1c''
   \<and> customSignMessage_result (pre @ ''1b'') = ''0x'' @ pre @ ''1b''"
proof -
  have d0: "hex_digit_val (CHR ''0'') = Some 0" and d1: "hex_digit_val (CHR ''1'') = Some 1"
    and db: "hex_digit_val (CHR ''b'') = Some 11" and dc: "hex_digit_val (CHR ''c'') = Some 12"
    by (simp_all add: hex_digit_val_def)
  have a: "adjustV (pre @ ''00'') = pre @ ''1b''"
    using adjustV_two_digits[OF d0 d0, of pre] by (simp add: hex_digit_char_def)
  have b: "adjustV (pre @ ''01'') = pre @ ''1c''"
    using adjustV_two_digits[OF d0 d1, of pre] by (simp add: hex_digit_char_def)
  have c: "adjustV (pre @ ''1b'') = pre @ ''1b''"
    using adjustV_two_digits[OF d1 db, of pre] by simp
  have d: "adjustV (pre @ ''1c'') = pre @ ''1c''"
    using adjustV_two_digits[OF d1 dc, of pre] by simp
  from a b c d show ?thesis by (simp add: customSignMessage_result_def)
qed

text \<open>
  C10. The normalizer changes at most the final byte. A signature of whole bytes has an
  even number of hexadecimal characters; the frame needs less, that the signature is not
  a single character. Then the result has the length of the input, everything before the
  final two characters (the final byte) is the input's, and a signature whose final byte
  is 27 or more is returned as it is.
\<close>

theorem adjustV_frame:
  assumes "length sig \<noteq> 1"
  shows "length (adjustV sig) = length sig
         \<and> take (length sig - 2) (adjustV sig) = take (length sig - 2) sig
         \<and> (\<forall>v. lastByte sig = Some v \<and> 27 \<le> v \<longrightarrow> adjustV sig = sig)"
  using length_adjustV[OF assms] take_adjustV[of sig] by (simp add: adjustV_def)

theorem adjustV_frame_witness:
  "length ''ab00'' \<noteq> 1 \<and> length (adjustV ''ab00'') = length ''ab00''
   \<and> take (length ''ab00'' - 2) (adjustV ''ab00'') = ''ab''
   \<and> lastByte ''ab1c'' = Some 28 \<and> adjustV ''ab1c'' = ''ab1c''"
proof -
  have v: "lastByte ''ab1c'' = Some 28"
    by (simp add: lastByte_def parseInt16_def slice_last2_def strip_sign_def strip_0x_def
        js_whitespace_def hex_digit_val_def)
  from adjustV_frame[of "''ab00''"] adjustV_frame[of "''ab1c''"] v show ?thesis by simp
qed

section \<open>Laws of runs\<close>

lemma after_calls_Nil: "after_calls [] m = m"
  by (simp add: after_calls_def)

lemma bind_ret [simp]: "bind_run (ret x) f = f x"
  by (simp add: bind_run_def ret_def)

lemma bind_assoc [simp]: "bind_run (bind_run m f) g = bind_run m (\<lambda>x. bind_run (f x) g)"
  by (cases m) (auto simp: bind_run_def split: sum.splits)

lemma after_bind_call [simp]:
  "after_calls pre (bind_run (call c r) f) =
     (case r of Inl e \<Rightarrow> (Inl e, pre @ [(c, Some e)])
              | Inr x \<Rightarrow> after_calls (pre @ [(c, None)]) (f x))"
  by (simp add: after_calls_def bind_run_def call_def split: sum.splits)

lemma after_ret [simp]: "after_calls pre (ret x) = (Inr x, pre)"
  by (simp add: after_calls_def ret_def)

lemma catch_next_Inr [simp]: "catch_next label (Inr resp, t) = (Responded resp, t)"
  by (simp add: catch_next_def)

lemma catch_next_Inl [simp]:
  "catch_next label (Inl e, t) = (NextCalled e, t @ [(ConsoleError label e, None)])"
  by (simp add: catch_next_def)

lemma taf_ret: "throws_are_final (ret x)"
  by (simp add: throws_are_final_def ret_def)

lemma taf_call: "throws_are_final (call c r)"
  by (auto simp: throws_are_final_def call_def split: sum.splits)

lemma taf_bind:
  assumes "throws_are_final m" "\<And>x. throws_are_final (f x)"
  shows "throws_are_final (bind_run m f)"
proof (cases "fst m")
  case (Inl e)
  with assms(1) show ?thesis by (simp add: throws_are_final_def bind_run_def)
next
  case (Inr x)
  have m: "\<And>c e. (c, Some e) \<notin> set (snd m)"
    using assms(1) Inr by (auto simp: throws_are_final_def)
  have "\<And>c e. (c, Some e) \<in> set (snd (f x)) \<Longrightarrow> snd (f x) \<noteq> []" by auto
  with Inr m assms(2)[of x] show ?thesis
    by (auto simp: throws_are_final_def bind_run_def)
qed

lemma taf_map_run:
  assumes "\<And>x. throws_are_final (f x)"
  shows "throws_are_final (map_run f xs)"
  by (induction xs) (auto intro!: taf_ret taf_bind assms)

lemma nl_ret: "never_logs (ret x)"
  by (simp add: never_logs_def ret_def)

lemma nl_call: "\<not> isConsoleError c \<Longrightarrow> never_logs (call c r)"
  by (simp add: never_logs_def call_def)

lemma nl_bind:
  assumes "never_logs m" "\<And>x. never_logs (f x)"
  shows "never_logs (bind_run m f)"
  using assms by (auto simp: never_logs_def bind_run_def split: sum.splits)

lemma case_option_intro:
  "P a \<Longrightarrow> (\<And>y. P (b y)) \<Longrightarrow> P (case x of None \<Rightarrow> a | Some y \<Rightarrow> b y)"
  by (cases x) auto

lemma if_intro: "P a \<Longrightarrow> P b \<Longrightarrow> P (if c then a else b)"
  by simp

lemma let_intro: "(\<And>x. P (f x)) \<Longrightarrow> P (Let v f)"
  by simp

lemma case_pair_intro: "P (f a b) \<Longrightarrow> P (case (a, b) of (x, y) \<Rightarrow> f x y)"
  by simp

lemmas taf_intros =
  case_option_intro[where P=throws_are_final] if_intro[where P=throws_are_final]
  let_intro[where P=throws_are_final] case_pair_intro[where P=throws_are_final]
  taf_bind taf_map_run taf_call taf_ret

lemmas nl_intros =
  case_option_intro[where P=never_logs] if_intro[where P=never_logs]
  let_intro[where P=never_logs] case_pair_intro[where P=never_logs]
  nl_bind nl_call nl_ret

lemma signWithEthers_throws: "throws_are_final (signWithEthers w ev req)"
  unfolding signWithEthers_def by (intro taf_intros)

lemma signWithCosmJS_throws: "throws_are_final (signWithCosmJS w ev req)"
  unfolding signWithCosmJS_def by (intro taf_intros)

lemma alchemy_try_throws: "throws_are_final (alchemySessionSignHandler_try w ev req)"
  unfolding alchemySessionSignHandler_try_def by (intro taf_intros)

lemma ethers_try_throws: "throws_are_final (ethersSessionSignHandler_try w ev req)"
  unfolding ethersSessionSignHandler_try_def by (intro taf_intros)

lemma signWithEthers_never_logs: "never_logs (signWithEthers w ev req)"
  unfolding signWithEthers_def by (intro nl_intros) (simp_all add: isConsoleError_def)

lemma signWithCosmJS_never_logs: "never_logs (signWithCosmJS w ev req)"
  unfolding signWithCosmJS_def by (intro nl_intros) (simp_all add: isConsoleError_def)

lemma catch_next_delegates:
  assumes "throws_are_final m"
  shows "caught_and_delegated label (catch_next label m)"
proof (cases "fst m")
  case (Inl e)
  with assms show ?thesis
    by (auto simp: caught_and_delegated_def catch_next_def throws_are_final_def)
next
  case (Inr resp)
  with assms show ?thesis
    by (auto simp: caught_and_delegated_def catch_next_def throws_are_final_def)
qed


section \<open>Early returns of the handlers\<close>

text \<open>
  C3. A request to a session handler whose body has no \<^verbatim>\<open>session\<close> is answered with
  status 400 and no call is made at all: the trace is empty, so no Capsule client is
  constructed and \<^verbatim>\<open>importSession\<close> is not called. This holds in every world and every
  environment, for \<^verbatim>\<open>alchemySessionSignHandler\<close> and for \<^verbatim>\<open>ethersSessionSignHandler\<close>.
\<close>

theorem session_handlers_missing_session:
  assumes "body_session req = None"
  shows "alchemySessionSignHandler w ev req =
           (Responded (text_response 400
              ''Session is required. Ensure the client passes a valid session.''), [])
         \<and> ethersSessionSignHandler w ev req =
           (Responded (text_response 400
              ''Provide both `email` and `session` in the request body.''), [])"
  using assms
  by (simp add: alchemySessionSignHandler_def alchemySessionSignHandler_try_def
      ethersSessionSignHandler_def ethersSessionSignHandler_try_def truthy_def ret_def
      split: option.split)

theorem session_handlers_missing_session_witness:
  "body_session (demo_express_request\<lparr>body_session := None\<rparr>) = None
   \<and> alchemySessionSignHandler demo_world demo_env (demo_express_request\<lparr>body_session := None\<rparr>) =
       (Responded (text_response 400
          ''Session is required. Ensure the client passes a valid session.''), [])
   \<and> ethersSessionSignHandler demo_world demo_env (demo_express_request\<lparr>body_session := None\<rparr>) =
       (Responded (text_response 400
          ''Provide both `email` and `session` in the request body.''), [])"
  using session_handlers_missing_session
          [of "demo_express_request\<lparr>body_session := None\<rparr>" demo_world demo_env]
  by simp

text \<open>
  The two pregenerated-wallet handlers on a request with a bearer token that verifies to a
  user whose email is not the requested one.
\<close>

lemma signWithEthers_forbidden:
  assumes "truthy (authorization req) = Some authHeader"
    and "startsWith authHeader ''Bearer ''"
    and "simulateVerifyToken w (index1 (split_on (CHR '' '') authHeader)) = Inr (Some u)"
    and "json_email req = Inr requested"
    and "requested \<noteq> Some (email u)"
  shows "signWithEthers w ev req =
           (Inr (text_response 403 ''Forbidden''),
            [(SimulateVerifyToken (index1 (split_on (CHR '' '') authHeader)), None),
             (ReqJson, None)])"
proof -
  have "after_calls [] (signWithEthers w ev req) =
           (Inr (text_response 403 ''Forbidden''),
            [(SimulateVerifyToken (index1 (split_on (CHR '' '') authHeader)), None),
             (ReqJson, None)])"
    unfolding signWithEthers_def using assms
    by (auto simp: Let_def split: option.split)
  then show ?thesis by (simp add: after_calls_Nil)
qed

lemma signWithCosmJS_forbidden:
  assumes "truthy (authorization req) = Some authHeader"
    and "startsWith authHeader ''Bearer ''"
    and "simulateVerifyToken w (index1 (split_on (CHR '' '') authHeader)) = Inr (Some u)"
    and "json_email req = Inr requested"
    and "requested \<noteq> Some (email u)"
  shows "signWithCosmJS w ev req =
           (Inr (text_response 403 ''Forbidden''),
            [(SimulateVerifyToken (index1 (split_on (CHR '' '') authHeader)), None),
             (ReqJson, None)])"
proof -
  have "after_calls [] (signWithCosmJS w ev req) =
           (Inr (text_response 403 ''Forbidden''),
            [(SimulateVerifyToken (index1 (split_on (CHR '' '') authHeader)), None),
             (ReqJson, None)])"
    unfolding signWithCosmJS_def using assms
    by (auto simp: Let_def split: option.split)
  then show ?thesis by (simp add: after_calls_Nil)
qed

text \<open>
  C4. A request to a pregenerated-wallet handler with a valid bearer token whose verified
  email differs from the requested \<^verbatim>\<open>email\<close> (or that requests none) is answered with
  \<^verbatim>\<open>403 Forbidden\<close>. The only calls made are the verification of the token and the reading
  of the body: the key-share store is not touched.
\<close>

theorem pregen_handlers_forbidden:
  assumes "truthy (authorization req) = Some authHeader"
    and "startsWith authHeader ''Bearer ''"
    and "simulateVerifyToken w (index1 (split_on (CHR '' '') authHeader)) = Inr (Some u)"
    and "json_email req = Inr requested"
    and "requested \<noteq> Some (email u)"
  shows "fst (signWithEthers w ev req) = Inr (text_response 403 ''Forbidden'')
         \<and> fst (signWithCosmJS w ev req) = Inr (text_response 403 ''Forbidden'')
         \<and> snd (signWithEthers w ev req) =
             [(SimulateVerifyToken (index1 (split_on (CHR '' '') authHeader)), None), (ReqJson, None)]
         \<and> snd (signWithCosmJS w ev req) =
             [(SimulateVerifyToken (index1 (split_on (CHR '' '') authHeader)), None), (ReqJson, None)]
         \<and> (\<forall>e x. (GetKeyShareInDB e, x) \<notin> set (snd (signWithEthers w ev req)))
         \<and> (\<forall>e x. (GetKeyShareInDB e, x) \<notin> set (snd (signWithCosmJS w ev req)))"
  by (simp add: signWithEthers_forbidden[OF assms] signWithCosmJS_forbidden[OF assms])

theorem pregen_handlers_forbidden_witness:
  "truthy (authorization demo_deno_request) = Some ''Bearer tok''
   \<and> startsWith ''Bearer tok'' ''Bearer ''
   \<and> simulateVerifyToken demo_world (index1 (split_on (CHR '' '') ''Bearer tok''))
       = Inr (Some \<lparr>email = ''a@b.com''\<rparr>)
   \<and> json_email (demo_deno_request\<lparr>json_email := Inr (Some ''x@y.com'')\<rparr>) = Inr (Some ''x@y.com'')
   \<and> Some ''x@y.com'' \<noteq> Some (email \<lparr>email = ''a@b.com''\<rparr>)
   \<and> fst (signWithEthers demo_world demo_env
             (demo_deno_request\<lparr>json_email := Inr (Some ''x@y.com'')\<rparr>))
       = Inr (text_response 403 ''Forbidden'')
   \<and> fst (signWithCosmJS demo_world demo_env
             (demo_deno_request\<lparr>json_email := Inr (Some ''x@y.com'')\<rparr>))
       = Inr (text_response 403 ''Forbidden'')"
proof -
  have a: "truthy (authorization (demo_deno_request\<lparr>json_email := Inr (Some ''x@y.com'')\<rparr>))
             = Some ''Bearer tok''"
    by (simp add: demo_deno_request_def truthy_def)
  have b: "startsWith ''Bearer tok'' ''Bearer ''"
    by (simp add: startsWith_def)
  have c: "simulateVerifyToken demo_world (index1 (split_on (CHR '' '') ''Bearer tok''))
             = Inr (Some \<lparr>email = ''a@b.com''\<rparr>)"
    by (simp add: demo_world_def index1_def)
  have d: "json_email (demo_deno_request\<lparr>json_email := Inr (Some ''x@y.com'')\<rparr>)
             = Inr (Some ''x@y.com'')"
    by simp
  have e: "Some ''x@y.com'' \<noteq> Some (email \<lparr>email = ''a@b.com''\<rparr>)"
    by simp
  from pregen_handlers_forbidden[OF a b c d e, of demo_env] a b c d e show ?thesis
    by (simp add: demo_deno_request_def)
qed


text \<open>
  The four handlers on a request that passes the checks made before the environment is
  read, when \<^verbatim>\<open>CAPSULE_API_KEY\<close> is unset or empty.
\<close>

lemma signWithEthers_no_key:
  assumes "truthy (CAPSULE_API_KEY ev) = None"
    and "truthy (authorization req) = Some authHeader"
    and "startsWith authHeader ''Bearer ''"
    and "simulateVerifyToken w (index1 (split_on (CHR '' '') authHeader)) = Inr (Some u)"
    and "json_email req = Inr (Some (email u))"
  shows "signWithEthers w ev req =
           (Inr (text_response 500 ''CAPSULE_API_KEY not set''),
            [(SimulateVerifyToken (index1 (split_on (CHR '' '') authHeader)), None),
             (ReqJson, None)])"
proof -
  have "after_calls [] (signWithEthers w ev req) =
           (Inr (text_response 500 ''CAPSULE_API_KEY not set''),
            [(SimulateVerifyToken (index1 (split_on (CHR '' '') authHeader)), None),
             (ReqJson, None)])"
    unfolding signWithEthers_def using assms by (simp add: Let_def)
  then show ?thesis by (simp add: after_calls_Nil)
qed

lemma signWithCosmJS_no_key:
  assumes "truthy (CAPSULE_API_KEY ev) = None"
    and "truthy (authorization req) = Some authHeader"
    and "startsWith authHeader ''Bearer ''"
    and "simulateVerifyToken w (index1 (split_on (CHR '' '') authHeader)) = Inr (Some u)"
    and "json_email req = Inr (Some (email u))"
  shows "signWithCosmJS w ev req =
           (Inr (text_response 500 ''CAPSULE_API_KEY not set''),
            [(SimulateVerifyToken (index1 (split_on (CHR '' '') authHeader)), None),
             (ReqJson, None)])"
proof -
  have "after_calls [] (signWithCosmJS w ev req) =
           (Inr (text_response 500 ''CAPSULE_API_KEY not set''),
            [(SimulateVerifyToken (index1 (split_on (CHR '' '') authHeader)), None),
             (ReqJson, None)])"
    unfolding signWithCosmJS_def using assms by (simp add: Let_def)
  then show ?thesis by (simp add: after_calls_Nil)
qed

lemma alchemy_no_key:
  assumes "truthy (CAPSULE_API_KEY ev) = None" and "truthy (body_session req) \<noteq> None"
  shows "alchemySessionSignHandler w ev req =
           (Responded (text_response 500
              ''CAPSULE_API_KEY not set. Set it in the environment before using this handler.''),
            [])"
  using assms
  by (auto simp: alchemySessionSignHandler_def alchemySessionSignHandler_try_def ret_def)

lemma ethersSession_no_key:
  assumes "truthy (CAPSULE_API_KEY ev) = None"
    and "truthy (body_email req) \<noteq> None" and "truthy (body_session req) \<noteq> None"
  shows "ethersSessionSignHandler w ev req =
           (Responded (text_response 500
              ''Set CAPSULE_API_KEY in the environment before using this handler.''), [])"
  using assms
  by (auto simp: ethersSessionSignHandler_def ethersSessionSignHandler_try_def ret_def)

text \<open>
  C5 (as amended). When \<^verbatim>\<open>CAPSULE_API_KEY\<close> is unset (or empty), every signing handler
  answers 500 as soon as the request has passed the checks that come first: a \<^verbatim>\<open>session\<close>
  (and, for the ethers session handler, an \<^verbatim>\<open>email\<close>) in the body of a session request; a
  valid bearer token and the matching email for a pregenerated-wallet request. No Capsule
  client is constructed and no service is called: the session handlers make no call at
  all, the pregenerated-wallet handlers only verify the token and read the body.
\<close>

theorem capsule_key_unset_500:
  assumes "truthy (CAPSULE_API_KEY ev) = None"
  shows "(truthy (body_session xreq) \<noteq> None \<longrightarrow>
            alchemySessionSignHandler w ev xreq =
              (Responded (text_response 500
                 ''CAPSULE_API_KEY not set. Set it in the environment before using this handler.''),
               []))
         \<and> (truthy (body_email xreq) \<noteq> None \<and> truthy (body_session xreq) \<noteq> None \<longrightarrow>
            ethersSessionSignHandler w ev xreq =
              (Responded (text_response 500
                 ''Set CAPSULE_API_KEY in the environment before using this handler.''), []))
         \<and> (truthy (authorization dreq) = Some authHeader
              \<and> startsWith authHeader ''Bearer ''
              \<and> simulateVerifyToken w (index1 (split_on (CHR '' '') authHeader)) = Inr (Some u)
              \<and> json_email dreq = Inr (Some (email u)) \<longrightarrow>
            signWithEthers w ev dreq =
              (Inr (text_response 500 ''CAPSULE_API_KEY not set''),
               [(SimulateVerifyToken (index1 (split_on (CHR '' '') authHeader)), None),
                (ReqJson, None)])
            \<and> signWithCosmJS w ev dreq =
              (Inr (text_response 500 ''CAPSULE_API_KEY not set''),
               [(SimulateVerifyToken (index1 (split_on (CHR '' '') authHeader)), None),
                (ReqJson, None)]))"
  using alchemy_no_key[OF assms] ethersSession_no_key[OF assms]
    signWithEthers_no_key[OF assms] signWithCosmJS_no_key[OF assms]
  by blast

theorem capsule_key_unset_500_witness:
  "truthy (CAPSULE_API_KEY (demo_env\<lparr>CAPSULE_API_KEY := None\<rparr>)) = None
   \<and> truthy (body_email demo_express_request) \<noteq> None
   \<and> truthy (body_session demo_express_request) \<noteq> None
   \<and> truthy (authorization demo_deno_request) = Some ''Bearer tok''
   \<and> startsWith ''Bearer tok'' ''Bearer ''
   \<and> simulateVerifyToken demo_world (index1 (split_on (CHR '' '') ''Bearer tok''))
        = Inr (Some \<lparr>email = ''a@b.com''\<rparr>)
   \<and> json_email demo_deno_request = Inr (Some (email \<lparr>email = ''a@b.com''\<rparr>))
   \<and> fst (alchemySessionSignHandler demo_world (demo_env\<lparr>CAPSULE_API_KEY := None\<rparr>)
            demo_express_request) =
        Responded (text_response 500
          ''CAPSULE_API_KEY not set. Set it in the environment before using this handler.'')
   \<and> fst (ethersSessionSignHandler demo_world (demo_env\<lparr>CAPSULE_API_KEY := None\<rparr>)
            demo_express_request) =
        Responded (text_response 500
          ''Set CAPSULE_API_KEY in the environment before using this handler.'')
   \<and> fst (signWithEthers demo_world (demo_env\<lparr>CAPSULE_API_KEY := None\<rparr>) demo_deno_request) =
        Inr (text_response 500 ''CAPSULE_API_KEY not set'')
   \<and> fst (signWithCosmJS demo_world (demo_env\<lparr>CAPSULE_API_KEY := None\<rparr>) demo_deno_request) =
        Inr (text_response 500 ''CAPSULE_API_KEY not set'')"
proof -
  have k: "truthy (CAPSULE_API_KEY (demo_env\<lparr>CAPSULE_API_KEY := None\<rparr>)) = None"
    by (simp add: truthy_def)
  have x: "truthy (body_email demo_express_request) \<noteq> None"
    "truthy (body_session demo_express_request) \<noteq> None"
    by (simp_all add: demo_express_request_def truthy_def)
  have a: "truthy (authorization demo_deno_request) = Some ''Bearer tok''"
    by (simp add: demo_deno_request_def truthy_def)
  have b: "startsWith ''Bearer tok'' ''Bearer ''"
    by (simp add: startsWith_def)
  have c: "simulateVerifyToken demo_world (index1 (split_on (CHR '' '') ''Bearer tok''))
             = Inr (Some \<lparr>email = ''a@b.com''\<rparr>)"
    by (simp add: demo_world_def index1_def)
  have d: "json_email demo_deno_request = Inr (Some (email \<lparr>email = ''a@b.com''\<rparr>))"
    by (simp add: demo_deno_request_def)
  from capsule_key_unset_500[OF k, of demo_express_request demo_world demo_deno_request
      "''Bearer tok''" "\<lparr>email = ''a@b.com''\<rparr>"] k x a b c d
  show ?thesis by simp
qed

text \<open>
  C5 as it is stated fails: with \<^verbatim>\<open>CAPSULE_API_KEY\<close> unset, a request without an
  \<^verbatim>\<open>Authorization\<close> header gets 401 from \<^verbatim>\<open>signWithEthers\<close>, and a request without a
  \<^verbatim>\<open>session\<close> gets 400 from \<^verbatim>\<open>alchemySessionSignHandler\<close>. The checks of the request come
  before the check of the environment.
\<close>

theorem capsule_key_unset_not_always_500:
  "CAPSULE_API_KEY (demo_env\<lparr>CAPSULE_API_KEY := None\<rparr>) = None
   \<and> signWithEthers demo_world (demo_env\<lparr>CAPSULE_API_KEY := None\<rparr>)
        (demo_deno_request\<lparr>authorization := None\<rparr>) =
       (Inr (text_response 401 ''Unauthorized''), [])
   \<and> alchemySessionSignHandler demo_world (demo_env\<lparr>CAPSULE_API_KEY := None\<rparr>)
        (demo_express_request\<lparr>body_session := None\<rparr>) =
       (Responded (text_response 400
          ''Session is required. Ensure the client passes a valid session.''), [])"
  by (simp add: signWithEthers_def alchemySessionSignHandler_def
      alchemySessionSignHandler_try_def truthy_def ret_def)



section \<open>Exceptions\<close>

text \<open>
  C9 (as amended). In the Express session handlers a throw of any call of the request is
  caught at the handler boundary: it is logged with \<^verbatim>\<open>console.error\<close> under the handler's
  label and handed to \<^verbatim>\<open>next\<close>; the handler sends no response of its own. In the Deno
  pregenerated-wallet handlers a throw is not caught: it ends the run, the handler logs
  nothing, and the promise it returned rejects with the thrown value.
\<close>

theorem handler_exceptions:
  "caught_and_delegated ''Error in alchemySessionSignHandler:''
     (alchemySessionSignHandler w ev xreq)
   \<and> caught_and_delegated ''Error in ethersSessionSignHandler:''
     (ethersSessionSignHandler w ev xreq)
   \<and> throws_are_final (signWithEthers w ev dreq) \<and> never_logs (signWithEthers w ev dreq)
   \<and> throws_are_final (signWithCosmJS w ev dreq) \<and> never_logs (signWithCosmJS w ev dreq)"
  unfolding alchemySessionSignHandler_def ethersSessionSignHandler_def
  by (intro conjI catch_next_delegates alchemy_try_throws ethers_try_throws
      signWithEthers_throws signWithEthers_never_logs signWithCosmJS_throws
      signWithCosmJS_never_logs)

theorem handler_exceptions_witness:
  "(ImportSession ''abc'', Some (Exn ''rejected''))
      \<in> set (snd (alchemySessionSignHandler (demo_world\<lparr>importSession := \<lambda>_. Inl (Exn ''rejected'')\<rparr>)
                    demo_env demo_express_request))
   \<and> fst (alchemySessionSignHandler (demo_world\<lparr>importSession := \<lambda>_. Inl (Exn ''rejected'')\<rparr>)
            demo_env demo_express_request) = NextCalled (Exn ''rejected'')
   \<and> last (snd (alchemySessionSignHandler (demo_world\<lparr>importSession := \<lambda>_. Inl (Exn ''rejected'')\<rparr>)
            demo_env demo_express_request))
       = (ConsoleError ''Error in alchemySessionSignHandler:'' (Exn ''rejected''), None)
   \<and> (ImportSession ''abc'', Some (Exn ''rejected''))
      \<in> set (snd (ethersSessionSignHandler (demo_world\<lparr>importSession := \<lambda>_. Inl (Exn ''rejected'')\<rparr>)
                    demo_env demo_express_request))
   \<and> fst (ethersSessionSignHandler (demo_world\<lparr>importSession := \<lambda>_. Inl (Exn ''rejected'')\<rparr>)
            demo_env demo_express_request) = NextCalled (Exn ''rejected'')
   \<and> (HasPregenWallet ''a@b.com'', Some (Exn ''timeout''))
      \<in> set (snd (signWithEthers (demo_world\<lparr>hasPregenWallet := \<lambda>_. Inl (Exn ''timeout'')\<rparr>)
                    demo_env demo_deno_request))
   \<and> fst (signWithEthers (demo_world\<lparr>hasPregenWallet := \<lambda>_. Inl (Exn ''timeout'')\<rparr>)
            demo_env demo_deno_request) = Inl (Exn ''timeout'')
   \<and> \<not> isConsoleError (fst (HasPregenWallet ''a@b.com'', Some (Exn ''timeout'')))
   \<and> (HasPregenWallet ''a@b.com'', Some (Exn ''timeout''))
      \<in> set (snd (signWithCosmJS (demo_world\<lparr>hasPregenWallet := \<lambda>_. Inl (Exn ''timeout'')\<rparr>)
                    demo_env demo_deno_request))
   \<and> fst (signWithCosmJS (demo_world\<lparr>hasPregenWallet := \<lambda>_. Inl (Exn ''timeout'')\<rparr>)
            demo_env demo_deno_request) = Inl (Exn ''timeout'')"
proof -
  let ?w = "demo_world\<lparr>importSession := \<lambda>_. Inl (Exn ''rejected'')\<rparr>"
  let ?v = "demo_world\<lparr>hasPregenWallet := \<lambda>_. Inl (Exn ''timeout'')\<rparr>"
  have "snd (after_calls [] (alchemySessionSignHandler_try ?w demo_env demo_express_request)) =
      [(NewCapsuleServer ''ck'', None), (ImportSession ''abc'', Some (Exn ''rejected''))]"
    unfolding alchemySessionSignHandler_try_def
    by (simp add: demo_world_def demo_env_def demo_express_request_def truthy_def)
  then have "(ImportSession ''abc'', Some (Exn ''rejected''))
      \<in> set (snd (alchemySessionSignHandler_try ?w demo_env demo_express_request))"
    by (simp add: after_calls_Nil)
  then have ta: "(ImportSession ''abc'', Some (Exn ''rejected''))
      \<in> set (snd (alchemySessionSignHandler ?w demo_env demo_express_request))"
    by (simp add: alchemySessionSignHandler_def catch_next_def split: sum.split)
  have "snd (after_calls [] (ethersSessionSignHandler_try ?w demo_env demo_express_request)) =
      [(NewCapsuleServer ''ck'', None), (ImportSession ''abc'', Some (Exn ''rejected''))]"
    unfolding ethersSessionSignHandler_try_def
    by (simp add: demo_world_def demo_env_def demo_express_request_def truthy_def)
  then have "(ImportSession ''abc'', Some (Exn ''rejected''))
      \<in> set (snd (ethersSessionSignHandler_try ?w demo_env demo_express_request))"
    by (simp add: after_calls_Nil)
  then have te: "(ImportSession ''abc'', Some (Exn ''rejected''))
      \<in> set (snd (ethersSessionSignHandler ?w demo_env demo_express_request))"
    by (simp add: ethersSessionSignHandler_def catch_next_def split: sum.split)
  have "snd (after_calls [] (signWithEthers ?v demo_env demo_deno_request)) =
      [(SimulateVerifyToken (Some ''tok''), None), (ReqJson, None),
       (NewCapsuleServer ''ck'', None), (HasPregenWallet ''a@b.com'', Some (Exn ''timeout''))]"
    unfolding signWithEthers_def
    by (simp add: Let_def demo_world_def demo_env_def demo_deno_request_def truthy_def
        startsWith_def index1_def)
  then have td: "(HasPregenWallet ''a@b.com'', Some (Exn ''timeout''))
      \<in> set (snd (signWithEthers ?v demo_env demo_deno_request))"
    by (simp add: after_calls_Nil)
  have "snd (after_calls [] (signWithCosmJS ?v demo_env demo_deno_request)) =
      [(SimulateVerifyToken (Some ''tok''), None), (ReqJson, None),
       (NewCapsuleServer ''ck'', None), (HasPregenWallet ''a@b.com'', Some (Exn ''timeout''))]"
    unfolding signWithCosmJS_def
    by (simp add: Let_def demo_world_def demo_env_def demo_deno_request_def truthy_def
        startsWith_def index1_def)
  then have tc: "(HasPregenWallet ''a@b.com'', Some (Exn ''timeout''))
      \<in> set (snd (signWithCosmJS ?v demo_env demo_deno_request))"
    by (simp add: after_calls_Nil)
  note h1 = handler_exceptions[of ?w demo_env demo_express_request demo_deno_request]
  note h2 = handler_exceptions[of ?v demo_env demo_express_request demo_deno_request]
  from h1 ta have ra: "fst (alchemySessionSignHandler ?w demo_env demo_express_request)
        = NextCalled (Exn ''rejected'')
      \<and> last (snd (alchemySessionSignHandler ?w demo_env demo_express_request))
        = (ConsoleError ''Error in alchemySessionSignHandler:'' (Exn ''rejected''), None)"
    unfolding caught_and_delegated_def by blast
  from h1 te have re: "fst (ethersSessionSignHandler ?w demo_env demo_express_request)
        = NextCalled (Exn ''rejected'')"
    unfolding caught_and_delegated_def by blast
  from h2 td have rd: "fst (signWithEthers ?v demo_env demo_deno_request) = Inl (Exn ''timeout'')"
    unfolding throws_are_final_def by blast
  from h2 td have nd: "\<not> isConsoleError (fst (HasPregenWallet ''a@b.com'', Some (Exn ''timeout'')))"
    unfolding never_logs_def by blast
  from h2 tc have rc: "fst (signWithCosmJS ?v demo_env demo_deno_request) = Inl (Exn ''timeout'')"
    unfolding throws_are_final_def by blast
  from ta ra te re td rd nd tc rc show ?thesis by blast
qed

text \<open>
  C9 as it is stated fails: when the wallet-existence check throws in \<^verbatim>\<open>signWithEthers\<close>,
  the run ends with the thrown value and produces no response (so no 500), and
  \<^verbatim>\<open>console.error\<close> is not among its calls.
\<close>

theorem signWithEthers_throw_escapes:
  "signWithEthers (demo_world\<lparr>hasPregenWallet := \<lambda>_. Inl (Exn ''timeout'')\<rparr>) demo_env
     demo_deno_request =
     (Inl (Exn ''timeout''),
      [(SimulateVerifyToken (Some ''tok''), None), (ReqJson, None),
       (NewCapsuleServer ''ck'', None), (HasPregenWallet ''a@b.com'', Some (Exn ''timeout''))])"
proof -
  have "after_calls [] (signWithEthers (demo_world\<lparr>hasPregenWallet := \<lambda>_. Inl (Exn ''timeout'')\<rparr>)
       demo_env demo_deno_request) =
     (Inl (Exn ''timeout''),
      [(SimulateVerifyToken (Some ''tok''), None), (ReqJson, None),
       (NewCapsuleServer ''ck'', None), (HasPregenWallet ''a@b.com'', Some (Exn ''timeout''))])"
    unfolding signWithEthers_def
    by (simp add: Let_def demo_world_def demo_env_def demo_deno_request_def truthy_def
        startsWith_def index1_def)
  then show ?thesis by (simp add: after_calls_Nil)
qed


section \<open>The resolution of the key share\<close>






section \<open>The batch of user operations\<close>







end
